theory Spec2Isabelle
  imports Main "HOL-Library.Sublist" "HOL-Library.Multiset"
begin

section \<open>Python values\<close>

text \<open>
  The notebook \<^verbatim>\<open>docs/docs/how_to/output_parser_structured.ipynb\<close> defines one
  function of its own, the pre-validator of the \<^verbatim>\<open>Joke\<close> schema:
  \<^verbatim>\<open>
  class Joke(BaseModel):
      setup: str = Field(description="question to set up a joke")
      punchline: str = Field(description="answer to resolve the joke")

      @model_validator(mode="before")
      @classmethod
      def question_ends_with_question_mark(cls, values: dict) -> dict:
          setup = values.get("setup")
          if setup and setup[-1] != "?":
              raise ValueError("Badly formed question!")
          return values
  \<close>
  A validator of mode "before" sees the raw input, before any field has been checked
  against its type. The parser hands it the object decoded from the model's JSON text,
  so the entries of \<^verbatim>\<open>values\<close> are JSON values: null, booleans, numbers, strings,
  lists and objects with string keys. A dict is an association list read with
  \<open>map_of\<close>. A string is a list of bytes (UTF-8); every byte of a multi-byte
  character is above 127, so the last byte is \<^verbatim>\<open>?\<close> exactly when the last character
  is. JSON numbers with a fraction behave like the integers here (falsy when zero, not
  subscriptable) and are left out.
\<close>

datatype pyval =
    PyNone
  | PyBool bool
  | PyInt int
  | PyStr string
  | PyList "pyval list"
  | PyDict "(string \<times> pyval) list"

type_synonym pydict = "(string \<times> pyval) list"

datatype py_error =
    ValueError string
  | TypeError
  | KeyError
  | IndexError

text \<open>\<^verbatim>\<open>values.get(key)\<close>: the entry, or \<^verbatim>\<open>None\<close> when the key is absent.\<close>

definition dict_get :: "pydict \<Rightarrow> string \<Rightarrow> pyval" where
  "dict_get d k = (case map_of d k of None \<Rightarrow> PyNone | Some v \<Rightarrow> v)"

text \<open>Python's truth value of an object, as \<^verbatim>\<open>if setup\<close> tests it.\<close>

fun truthy :: "pyval \<Rightarrow> bool" where
  "truthy PyNone = False"
| "truthy (PyBool b) = b"
| "truthy (PyInt i) = (i \<noteq> 0)"
| "truthy (PyStr s) = (s \<noteq> [])"
| "truthy (PyList xs) = (xs \<noteq> [])"
| "truthy (PyDict d) = (d \<noteq> [])"

text \<open>
  \<^verbatim>\<open>x[-1]\<close>: the last character of a string (a string of length one), the last element
  of a list, IndexError when either is empty; KeyError on a dict (its keys are strings,
  never \<^verbatim>\<open>-1\<close>); TypeError on None, a boolean or a number.
\<close>

fun subscript_last :: "pyval \<Rightarrow> py_error + pyval" where
  "subscript_last (PyStr s) = (if s = [] then Inl IndexError else Inr (PyStr [last s]))"
| "subscript_last (PyList xs) = (if xs = [] then Inl IndexError else Inr (last xs))"
| "subscript_last (PyDict d) = Inl KeyError"
| "subscript_last PyNone = Inl TypeError"
| "subscript_last (PyBool b) = Inl TypeError"
| "subscript_last (PyInt i) = Inl TypeError"

text \<open>
  \<^verbatim>\<open>x != "..."\<close> against a string literal: only a string equals a string, so the
  comparison is true unless \<open>x\<close> is that very string.
\<close>

definition ne_str :: "pyval \<Rightarrow> string \<Rightarrow> bool" where
  "ne_str x s = (x \<noteq> PyStr s)"

section \<open>The Joke schema and its validator\<close>

text \<open>
  The validator. \<^verbatim>\<open>and\<close> evaluates its right operand only when the left one is
  truthy, so the subscript is reached only for a truthy \<^verbatim>\<open>setup\<close>.
\<close>

definition question_ends_with_question_mark :: "pydict \<Rightarrow> py_error + pydict" where
  "question_ends_with_question_mark values =
     (let setup = dict_get values ''setup'' in
      if truthy setup then
        (case subscript_last setup of
           Inl e \<Rightarrow> Inl e
         | Inr c \<Rightarrow>
             if ne_str c ''?'' then Inl (ValueError ''Badly formed question!'')
             else Inr values)
      else Inr values)"

record Joke =
  "setup" :: string
  punchline :: string

text \<open>
  Building a \<^verbatim>\<open>Joke\<close> from a dict: the validator of the notebook runs first, on the
  raw dict; then the library checks the two declared fields, each of which must be
  present and a string (the annotation \<^verbatim>\<open>str\<close>); entries under other keys are
  ignored. A failure says where it comes from: the validator defined in the notebook, or
  the library's check of the named fields.
\<close>

datatype parse_error =
    Raised_in_validator py_error
  | Library_field_errors "string list"

definition field_str :: "pydict \<Rightarrow> string \<Rightarrow> string option" where
  "field_str values k = (case map_of values k of Some (PyStr s) \<Rightarrow> Some s | _ \<Rightarrow> None)"

definition Joke_validate :: "pydict \<Rightarrow> parse_error + Joke" where
  "Joke_validate values =
     (case question_ends_with_question_mark values of
        Inl e \<Rightarrow> Inl (Raised_in_validator e)
      | Inr vs \<Rightarrow>
          (case (field_str vs ''setup'', field_str vs ''punchline'') of
             (Some s, Some p) \<Rightarrow> Inr \<lparr>setup = s, punchline = p\<rparr>
           | _ \<Rightarrow>
             Inl (Library_field_errors
                   (filter (\<lambda>k. field_str vs k = None) [''setup'', ''punchline'']))))"

text \<open>\<^verbatim>\<open>Joke(setup=s, punchline=p)\<close> with two strings.\<close>

definition Joke_new :: "string \<Rightarrow> string \<Rightarrow> parse_error + Joke" where
  "Joke_new s p = Joke_validate [(''setup'', PyStr s), (''punchline'', PyStr p)]"

section \<open>The notebooks as Python syntax\<close>

text \<open>
  Several statements of the specification are about the text of the two notebooks: which
  calls they make and in which order, whether anything branches or raises, which fields
  the schema declares. The code cells are therefore also kept as syntax trees, with the
  node names of Python's \<^verbatim>\<open>ast\<close> module, and the questions are answered by
  functions over the trees. Only the expression forms that occur in the notebooks have a
  constructor; the compound statements of Python all have one, so that their absence is
  something to compute.
\<close>

datatype expr =
    Name string
  | Str string
  | IntLit int
  | FloatLit string
  | NoneLit
  | Attribute expr string
  | Call expr "expr list" "(string \<times> expr) list"
  | BitOr expr expr
  | BoolAnd expr expr
  | NotEq expr expr
  | Subscript expr expr
  | USub expr
  | ListE "expr list"
  | DictE "(expr \<times> expr) list"

datatype stmt =
    Import string
  | ImportFrom string "string list"
  | Shell "string list"
  | Assign string expr
  | AnnAssign string expr expr
  | Expr expr
  | Return expr
  | Raise expr
  | IfStmt expr "stmt list" "stmt list"
  | WhileStmt expr "stmt list"
  | ForStmt expr expr "stmt list"
  | TryStmt "stmt list" "stmt list"
  | FunctionDef string "expr list" "(string \<times> expr option) list" "expr option" "stmt list"
  | ClassDef string "expr list" "stmt list"

type_synonym cell = "stmt list"
type_synonym notebook = "cell list"

text \<open>
  The calls of an expression in the order Python evaluates them: the callee, the
  arguments from left to right, then the call itself.
\<close>

primrec calls_of :: "expr \<Rightarrow> expr list" where
  "calls_of (Name x) = []"
| "calls_of (Str s) = []"
| "calls_of (IntLit n) = []"
| "calls_of (FloatLit s) = []"
| "calls_of NoneLit = []"
| "calls_of (Attribute e a) = calls_of e"
| "calls_of (Call f args kws) =
     calls_of f @ concat (map calls_of args) @ concat (map snd (map (map_prod id calls_of) kws))
       @ [Call f args kws]"
| "calls_of (BitOr a b) = calls_of a @ calls_of b"
| "calls_of (BoolAnd a b) = calls_of a @ calls_of b"
| "calls_of (NotEq a b) = calls_of a @ calls_of b"
| "calls_of (Subscript a b) = calls_of a @ calls_of b"
| "calls_of (USub a) = calls_of a"
| "calls_of (ListE xs) = concat (map calls_of xs)"
| "calls_of (DictE kvs) =
     concat (map (\<lambda>kv. fst kv @ snd kv) (map (map_prod calls_of calls_of) kvs))"

text \<open>The short-circuit operators of an expression: their right operand is evaluated
  only under a test of the left one.\<close>

primrec bool_ops_of :: "expr \<Rightarrow> expr list" where
  "bool_ops_of (Name x) = []"
| "bool_ops_of (Str s) = []"
| "bool_ops_of (IntLit n) = []"
| "bool_ops_of (FloatLit s) = []"
| "bool_ops_of NoneLit = []"
| "bool_ops_of (Attribute e a) = bool_ops_of e"
| "bool_ops_of (Call f args kws) =
     bool_ops_of f @ concat (map bool_ops_of args)
       @ concat (map snd (map (map_prod id bool_ops_of) kws))"
| "bool_ops_of (BitOr a b) = bool_ops_of a @ bool_ops_of b"
| "bool_ops_of (BoolAnd a b) = BoolAnd a b # bool_ops_of a @ bool_ops_of b"
| "bool_ops_of (NotEq a b) = bool_ops_of a @ bool_ops_of b"
| "bool_ops_of (Subscript a b) = bool_ops_of a @ bool_ops_of b"
| "bool_ops_of (USub a) = bool_ops_of a"
| "bool_ops_of (ListE xs) = concat (map bool_ops_of xs)"
| "bool_ops_of (DictE kvs) =
     concat (map (\<lambda>kv. fst kv @ snd kv) (map (map_prod bool_ops_of bool_ops_of) kvs))"

text \<open>Every statement of a statement, itself first, bodies of functions and classes
  included.\<close>

primrec substmts :: "stmt \<Rightarrow> stmt list" where
  "substmts (Import m) = [Import m]"
| "substmts (ImportFrom m ns) = [ImportFrom m ns]"
| "substmts (Shell w) = [Shell w]"
| "substmts (Assign x e) = [Assign x e]"
| "substmts (AnnAssign x t e) = [AnnAssign x t e]"
| "substmts (Expr e) = [Expr e]"
| "substmts (Return e) = [Return e]"
| "substmts (Raise e) = [Raise e]"
| "substmts (IfStmt c a b) = IfStmt c a b # concat (map substmts a) @ concat (map substmts b)"
| "substmts (WhileStmt c a) = WhileStmt c a # concat (map substmts a)"
| "substmts (ForStmt x e a) = ForStmt x e a # concat (map substmts a)"
| "substmts (TryStmt a h) = TryStmt a h # concat (map substmts a) @ concat (map substmts h)"
| "substmts (FunctionDef f ds ps r b) = FunctionDef f ds ps r b # concat (map substmts b)"
| "substmts (ClassDef c bs b) = ClassDef c bs b # concat (map substmts b)"

text \<open>
  The statements a cell runs when it is executed: as \<open>substmts\<close>, but the body of a
  function definition is not entered (defining a function does not run it; the body of a
  class does run).
\<close>

primrec run_stmts :: "stmt \<Rightarrow> stmt list" where
  "run_stmts (Import m) = [Import m]"
| "run_stmts (ImportFrom m ns) = [ImportFrom m ns]"
| "run_stmts (Shell w) = [Shell w]"
| "run_stmts (Assign x e) = [Assign x e]"
| "run_stmts (AnnAssign x t e) = [AnnAssign x t e]"
| "run_stmts (Expr e) = [Expr e]"
| "run_stmts (Return e) = [Return e]"
| "run_stmts (Raise e) = [Raise e]"
| "run_stmts (IfStmt c a b) = IfStmt c a b # concat (map run_stmts a) @ concat (map run_stmts b)"
| "run_stmts (WhileStmt c a) = WhileStmt c a # concat (map run_stmts a)"
| "run_stmts (ForStmt x e a) = ForStmt x e a # concat (map run_stmts a)"
| "run_stmts (TryStmt a h) = TryStmt a h # concat (map run_stmts a) @ concat (map run_stmts h)"
| "run_stmts (FunctionDef f ds ps r b) = [FunctionDef f ds ps r b]"
| "run_stmts (ClassDef c bs b) = ClassDef c bs b # concat (map run_stmts b)"

text \<open>The expressions that stand directly in one statement (not those of nested
  statements).\<close>

fun own_exprs :: "stmt \<Rightarrow> expr list" where
  "own_exprs (Assign x e) = [e]"
| "own_exprs (AnnAssign x t e) = [t, e]"
| "own_exprs (Expr e) = [e]"
| "own_exprs (Return e) = [e]"
| "own_exprs (Raise e) = [e]"
| "own_exprs (IfStmt c a b) = [c]"
| "own_exprs (WhileStmt c a) = [c]"
| "own_exprs (ForStmt x e a) = [x, e]"
| "own_exprs (FunctionDef f ds ps r b) = ds"
| "own_exprs (ClassDef c bs b) = bs"
| "own_exprs s = []"

fun is_branch :: "stmt \<Rightarrow> bool" where
  "is_branch (IfStmt c a b) = True"
| "is_branch (WhileStmt c a) = True"
| "is_branch (ForStmt x e a) = True"
| "is_branch (TryStmt a h) = True"
| "is_branch s = False"

fun is_raise :: "stmt \<Rightarrow> bool" where
  "is_raise (Raise e) = True"
| "is_raise s = False"

fun is_try :: "stmt \<Rightarrow> bool" where
  "is_try (TryStmt a h) = True"
| "is_try s = False"

definition all_stmts :: "notebook \<Rightarrow> stmt list" where
  "all_stmts nb = concat (map substmts (concat nb))"

definition top_level_stmts :: "notebook \<Rightarrow> stmt list" where
  "top_level_stmts nb = concat (map run_stmts (concat nb))"

text \<open>Branching anywhere in a list of statements: a compound statement that tests, or
  a short-circuit operator in one of the expressions.\<close>

definition branch_points :: "stmt list \<Rightarrow> stmt list" where
  "branch_points ss =
     filter (\<lambda>s. is_branch s \<or> concat (map bool_ops_of (own_exprs s)) \<noteq> []) ss"

text \<open>The functions a notebook defines, with their bodies, and those among them whose
  body branches or raises.\<close>

fun function_def :: "stmt \<Rightarrow> (string \<times> stmt list) option" where
  "function_def (FunctionDef f ds ps r b) = Some (f, b)"
| "function_def s = None"

definition defined_functions :: "notebook \<Rightarrow> (string \<times> stmt list) list" where
  "defined_functions nb = List.map_filter function_def (all_stmts nb)"

definition branching_functions :: "notebook \<Rightarrow> string list" where
  "branching_functions nb =
     map fst (filter (\<lambda>fb. branch_points (concat (map substmts (snd fb))) \<noteq> [])
               (defined_functions nb))"

definition raising_functions :: "notebook \<Rightarrow> string list" where
  "raising_functions nb =
     map fst (filter (\<lambda>fb. filter is_raise (concat (map substmts (snd fb))) \<noteq> [])
               (defined_functions nb))"

text \<open>All calls of a notebook, in the order of the text.\<close>

definition notebook_calls :: "notebook \<Rightarrow> expr list" where
  "notebook_calls nb = concat (map calls_of (concat (map own_exprs (all_stmts nb))))"

text \<open>The methods called on a variable: the calls \<^verbatim>\<open>r.m(...)\<close> whose receiver is the
  name \<open>r\<close>.\<close>

fun method_on :: "string \<Rightarrow> expr \<Rightarrow> string option" where
  "method_on r (Call (Attribute (Name x) m) args kws) = (if x = r then Some m else None)"
| "method_on r e = None"

definition methods_called_on :: "string \<Rightarrow> notebook \<Rightarrow> string list" where
  "methods_called_on r nb = List.map_filter (method_on r) (notebook_calls nb)"

text \<open>The annotated fields a class body declares, with their annotations.\<close>

fun field_decl :: "stmt \<Rightarrow> (string \<times> expr) option" where
  "field_decl (AnnAssign x t e) = Some (x, t)"
| "field_decl s = None"

fun class_fields :: "string \<Rightarrow> stmt \<Rightarrow> (string \<times> expr) list option" where
  "class_fields c (ClassDef c' bs b) = (if c' = c then Some (List.map_filter field_decl b) else None)"
| "class_fields c s = None"

definition schema_fields :: "string \<Rightarrow> notebook \<Rightarrow> (string \<times> expr) list list" where
  "schema_fields c nb = List.map_filter (class_fields c) (all_stmts nb)"

section \<open>The notebook docs/docs/how\_to/hybrid.ipynb\<close>

text \<open>The code cells in order, each under the id the notebook gives it. The first one
  is a shell line (\<^verbatim>\<open>!pip install "cassio>=0.1.7"\<close>), kept as its words.\<close>

abbreviation (input) question :: expr where
  "question \<equiv> Str ''What city did I visit last?''"

definition hybrid_cell_c2efe35eea197769 :: cell where
  "hybrid_cell_c2efe35eea197769 = [Shell [''pip'', ''install'', ''cassio>=0.1.7'']]"

definition hybrid_cell_cb2cef097277c32e :: cell where
  "hybrid_cell_cb2cef097277c32e =
    [Import ''cassio'',
     Expr (Call (Attribute (Name ''cassio'') ''init'') []
       [(''database_id'', Str ''Your database ID''),
        (''token'', Str ''Your application token''),
        (''keyspace'', Str ''Your key space'')])]"

definition hybrid_cell_7345de3c :: cell where
  "hybrid_cell_7345de3c =
    [ImportFrom ''cassio.table.cql'' [''STANDARD_ANALYZER''],
     ImportFrom ''langchain_community.vectorstores'' [''Cassandra''],
     ImportFrom ''langchain_openai'' [''OpenAIEmbeddings''],
     Assign ''embeddings'' (Call (Name ''OpenAIEmbeddings'') [] []),
     Assign ''vectorstore'' (Call (Name ''Cassandra'') []
       [(''embedding'', Name ''embeddings''),
        (''table_name'', Str ''test_hybrid''),
        (''body_index_options'', ListE [Name ''STANDARD_ANALYZER'']),
        (''session'', NoneLit),
        (''keyspace'', NoneLit)]),
     Expr (Call (Attribute (Name ''vectorstore'') ''add_texts'')
       [ListE [Str ''In 2023, I visited Paris'',
               Str ''In 2022, I visited New York'',
               Str ''In 2021, I visited New Orleans'']] [])]"

definition hybrid_cell_3c2a39fa :: cell where
  "hybrid_cell_3c2a39fa =
    [Expr (Call (Attribute (Call (Attribute (Name ''vectorstore'') ''as_retriever'') [] [])
                  ''invoke'') [question] [])]"

definition hybrid_cell_56393baa :: cell where
  "hybrid_cell_56393baa =
    [Expr (Call (Attribute
                  (Call (Attribute (Name ''vectorstore'') ''as_retriever'') []
                     [(''search_kwargs'', DictE [(Str ''body_search'', Str ''new'')])])
                  ''invoke'') [question] [])]"

definition hybrid_cell_62707b4f :: cell where
  "hybrid_cell_62707b4f =
    [ImportFrom ''langchain_core.output_parsers'' [''StrOutputParser''],
     ImportFrom ''langchain_core.prompts'' [''ChatPromptTemplate''],
     ImportFrom ''langchain_core.runnables'' [''ConfigurableField'', ''RunnablePassthrough''],
     ImportFrom ''langchain_openai'' [''ChatOpenAI'']]"

definition hybrid_cell_44a865f6 :: cell where
  "hybrid_cell_44a865f6 =
    [Assign ''template''
       (Str (''Answer the question based only on the following context:'' @ [CHR 0x0A]
             @ ''{context}'' @ [CHR 0x0A] @ ''Question: {question}'' @ [CHR 0x0A])),
     Assign ''prompt''
       (Call (Attribute (Name ''ChatPromptTemplate'') ''from_template'') [Name ''template''] []),
     Assign ''model'' (Call (Name ''ChatOpenAI'') [] []),
     Assign ''retriever'' (Call (Attribute (Name ''vectorstore'') ''as_retriever'') [] [])]"

definition hybrid_cell_babbadff :: cell where
  "hybrid_cell_babbadff =
    [Assign ''configurable_retriever''
       (Call (Attribute (Name ''retriever'') ''configurable_fields'') []
          [(''search_kwargs'',
            Call (Name ''ConfigurableField'') []
              [(''id'', Str ''search_kwargs''),
               (''name'', Str ''Search Kwargs''),
               (''description'', Str ''The search kwargs to use'')])])]"

definition hybrid_cell_210b0446 :: cell where
  "hybrid_cell_210b0446 =
    [Assign ''chain''
       (BitOr
         (BitOr
           (BitOr
             (DictE [(Str ''context'', Name ''configurable_retriever''),
                     (Str ''question'', Call (Name ''RunnablePassthrough'') [] [])])
             (Name ''prompt''))
           (Name ''model''))
         (Call (Name ''StrOutputParser'') [] []))]"

definition hybrid_cell_a38037b2 :: cell where
  "hybrid_cell_a38037b2 = [Expr (Call (Attribute (Name ''chain'') ''invoke'') [question] [])]"

definition hybrid_cell_9gYLqBTH8BFz :: cell where
  "hybrid_cell_9gYLqBTH8BFz =
    [Expr (Call (Attribute (Name ''chain'') ''invoke'') [question]
       [(''config'',
         DictE [(Str ''configurable'',
                 DictE [(Str ''search_kwargs'',
                         DictE [(Str ''body_search'', Str ''new'')])])])])]"

definition hybrid_ipynb :: notebook where
  "hybrid_ipynb =
    [hybrid_cell_c2efe35eea197769, hybrid_cell_cb2cef097277c32e, hybrid_cell_7345de3c,
     hybrid_cell_3c2a39fa, hybrid_cell_56393baa, hybrid_cell_62707b4f, hybrid_cell_44a865f6,
     hybrid_cell_babbadff, hybrid_cell_210b0446, hybrid_cell_a38037b2,
     hybrid_cell_9gYLqBTH8BFz]"

text \<open>The outputs the notebook records: the page contents of the documents the two
  retrieval cells show, and the answers of the two chain invocations.\<close>

definition hybrid_output_3c2a39fa :: "string list" where
  "hybrid_output_3c2a39fa =
    [''In 2022, I visited New York'', ''In 2023, I visited Paris'',
     ''In 2021, I visited New Orleans'']"

definition hybrid_output_56393baa :: "string list" where
  "hybrid_output_56393baa =
    [''In 2022, I visited New York'', ''In 2021, I visited New Orleans'']"

definition hybrid_output_a38037b2 :: string where
  "hybrid_output_a38037b2 = ''Paris''"

definition hybrid_output_9gYLqBTH8BFz :: string where
  "hybrid_output_9gYLqBTH8BFz = ''New York''"

section \<open>The notebook docs/docs/how\_to/output\_parser\_structured.ipynb\<close>

definition Joke_class :: stmt where
  "Joke_class =
    ClassDef ''Joke'' [Name ''BaseModel'']
      [AnnAssign ''setup'' (Name ''str'')
         (Call (Name ''Field'') [] [(''description'', Str ''question to set up a joke'')]),
       AnnAssign ''punchline'' (Name ''str'')
         (Call (Name ''Field'') [] [(''description'', Str ''answer to resolve the joke'')]),
       FunctionDef ''question_ends_with_question_mark''
         [Call (Name ''model_validator'') [] [(''mode'', Str ''before'')], Name ''classmethod'']
         [(''cls'', None), (''values'', Some (Name ''dict''))]
         (Some (Name ''dict''))
         [Assign ''setup'' (Call (Attribute (Name ''values'') ''get'') [Str ''setup''] []),
          IfStmt (BoolAnd (Name ''setup'')
                    (NotEq (Subscript (Name ''setup'') (USub (IntLit 1))) (Str ''?'')))
            [Raise (Call (Name ''ValueError'') [Str ''Badly formed question!''] [])]
            [],
          Return (Name ''values'')]]"

definition parser_cell_3ad71dfb :: cell where
  "parser_cell_3ad71dfb =
    [ImportFrom ''langchain_core.output_parsers'' [''PydanticOutputParser''],
     ImportFrom ''langchain_core.prompts'' [''PromptTemplate''],
     ImportFrom ''langchain_openai'' [''OpenAI''],
     ImportFrom ''pydantic'' [''BaseModel'', ''Field'', ''model_validator''],
     Assign ''model'' (Call (Name ''OpenAI'') []
       [(''model_name'', Str ''gpt-3.5-turbo-instruct''), (''temperature'', FloatLit ''0.0'')]),
     Joke_class,
     Assign ''parser'' (Call (Name ''PydanticOutputParser'') []
       [(''pydantic_object'', Name ''Joke'')]),
     Assign ''prompt'' (Call (Name ''PromptTemplate'') []
       [(''template'',
         Str (''Answer the user query.'' @ [CHR 0x0A] @ ''{format_instructions}'' @ [CHR 0x0A]
              @ ''{query}'' @ [CHR 0x0A])),
        (''input_variables'', ListE [Str ''query'']),
        (''partial_variables'',
         DictE [(Str ''format_instructions'',
                 Call (Attribute (Name ''parser'') ''get_format_instructions'') [] [])])]),
     Assign ''prompt_and_model'' (BitOr (Name ''prompt'') (Name ''model'')),
     Assign ''output'' (Call (Attribute (Name ''prompt_and_model'') ''invoke'')
       [DictE [(Str ''query'', Str ''Tell me a joke.'')]] []),
     Expr (Call (Attribute (Name ''parser'') ''invoke'') [Name ''output''] [])]"

definition parser_cell_34f7ff0c :: cell where
  "parser_cell_34f7ff0c =
    [Expr (Call (Attribute (Name ''parser'') ''invoke'') [Name ''output''] [])]"

definition parser_cell_51f7fff5 :: cell where
  "parser_cell_51f7fff5 =
    [Assign ''chain'' (BitOr (BitOr (Name ''prompt'') (Name ''model'')) (Name ''parser'')),
     Expr (Call (Attribute (Name ''chain'') ''invoke'')
       [DictE [(Str ''query'', Str ''Tell me a joke.'')]] [])]"

definition parser_cell_d7ecfe4d :: cell where
  "parser_cell_d7ecfe4d =
    [ImportFrom ''langchain.output_parsers.json'' [''SimpleJsonOutputParser''],
     Assign ''json_prompt'' (Call (Attribute (Name ''PromptTemplate'') ''from_template'')
       [Str ''Return a JSON object with an `answer` key that answers the following question: {question}'']
       []),
     Assign ''json_parser'' (Call (Name ''SimpleJsonOutputParser'') [] []),
     Assign ''json_chain''
       (BitOr (BitOr (Name ''json_prompt'') (Name ''model'')) (Name ''json_parser''))]"

definition parser_cell_cc2b999e :: cell where
  "parser_cell_cc2b999e =
    [Expr (Call (Name ''list'')
       [Call (Attribute (Name ''json_chain'') ''stream'')
          [DictE [(Str ''question'', Str ''Who invented the microscope?'')]] []] [])]"

definition parser_cell_a23b7592 :: cell where
  "parser_cell_a23b7592 =
    [Expr (Call (Name ''list'')
       [Call (Attribute (Name ''chain'') ''stream'')
          [DictE [(Str ''query'', Str ''Tell me a joke.'')]] []] [])]"

definition output_parser_structured_ipynb :: notebook where
  "output_parser_structured_ipynb =
    [parser_cell_3ad71dfb, parser_cell_34f7ff0c, parser_cell_51f7fff5, parser_cell_d7ecfe4d,
     parser_cell_cc2b999e, parser_cell_a23b7592]"

text \<open>The recorded outputs. The first three cells all show the same parsed joke.\<close>

definition parser_output_3ad71dfb :: Joke where
  "parser_output_3ad71dfb =
    \<lparr>setup = ''Why did the tomato turn red?'',
     punchline = ''Because it saw the salad dressing!''\<rparr>"

definition parser_output_34f7ff0c :: Joke where
  "parser_output_34f7ff0c =
    \<lparr>setup = ''Why did the tomato turn red?'',
     punchline = ''Because it saw the salad dressing!''\<rparr>"

definition parser_output_51f7fff5 :: Joke where
  "parser_output_51f7fff5 =
    \<lparr>setup = ''Why did the tomato turn red?'',
     punchline = ''Because it saw the salad dressing!''\<rparr>"

definition parser_output_cc2b999e :: "pydict list" where
  "parser_output_cc2b999e =
    [[],
     [(''answer'', PyStr [])],
     [(''answer'', PyStr ''Ant'')],
     [(''answer'', PyStr ''Anton'')],
     [(''answer'', PyStr ''Antonie'')],
     [(''answer'', PyStr ''Antonie van'')],
     [(''answer'', PyStr ''Antonie van Lee'')],
     [(''answer'', PyStr ''Antonie van Leeu'')],
     [(''answer'', PyStr ''Antonie van Leeuwen'')],
     [(''answer'', PyStr ''Antonie van Leeuwenho'')],
     [(''answer'', PyStr ''Antonie van Leeuwenhoek'')]]"

definition parser_output_a23b7592 :: "Joke list" where
  "parser_output_a23b7592 =
    [\<lparr>setup = ''Why did the tomato turn red?'', punchline = []\<rparr>,
     \<lparr>setup = ''Why did the tomato turn red?'', punchline = ''Because''\<rparr>,
     \<lparr>setup = ''Why did the tomato turn red?'', punchline = ''Because it''\<rparr>,
     \<lparr>setup = ''Why did the tomato turn red?'', punchline = ''Because it saw''\<rparr>,
     \<lparr>setup = ''Why did the tomato turn red?'', punchline = ''Because it saw the''\<rparr>,
     \<lparr>setup = ''Why did the tomato turn red?'', punchline = ''Because it saw the salad''\<rparr>,
     \<lparr>setup = ''Why did the tomato turn red?'',
      punchline = ''Because it saw the salad dressing''\<rparr>,
     \<lparr>setup = ''Why did the tomato turn red?'',
      punchline = ''Because it saw the salad dressing!''\<rparr>]"

section \<open>Reading the hybrid-search sequence\<close>

text \<open>A literal expression as the value it denotes: strings, integers, \<^verbatim>\<open>None\<close>,
  lists of literals and dicts of literals with string keys.\<close>

fun dict_entry :: "pyval option \<times> pyval option \<Rightarrow> (string \<times> pyval) option" where
  "dict_entry (Some (PyStr k), Some v) = Some (k, v)"
| "dict_entry kv = None"

primrec literal :: "expr \<Rightarrow> pyval option" where
  "literal (Name x) = None"
| "literal (Str s) = Some (PyStr s)"
| "literal (IntLit n) = Some (PyInt n)"
| "literal (FloatLit s) = None"
| "literal NoneLit = Some PyNone"
| "literal (Attribute e a) = None"
| "literal (Call f args kws) = None"
| "literal (BitOr a b) = None"
| "literal (BoolAnd a b) = None"
| "literal (NotEq a b) = None"
| "literal (Subscript a b) = None"
| "literal (USub a) = None"
| "literal (ListE xs) = map_option PyList (those (map literal xs))"
| "literal (DictE kvs) =
     map_option PyDict (those (map dict_entry (map (map_prod literal literal) kvs)))"

text \<open>The stages of a pipeline written with \<^verbatim>\<open>|\<close>, from left to right.\<close>

fun pipeline_stages :: "expr \<Rightarrow> expr list" where
  "pipeline_stages (BitOr a b) = pipeline_stages a @ pipeline_stages b"
| "pipeline_stages e = [e]"

text \<open>
  The steps of the hybrid-search sequence, as the statements of the notebook show them:
  \<^item> \<^verbatim>\<open>cassio.init(...)\<close> initialises the connection to the database;
  \<^item> \<^verbatim>\<open>vectorstore.add_texts([...])\<close> inserts the listed texts;
  \<^item> \<^verbatim>\<open>vectorstore.as_retriever(...).invoke(q)\<close> is a retrieval call, with the
    \<^verbatim>\<open>search_kwargs\<close> given to \<^verbatim>\<open>as_retriever\<close> (if any);
  \<^item> \<^verbatim>\<open>chain = a | b | ...\<close> composes the pipeline from its stages;
  \<^item> \<^verbatim>\<open>chain.invoke(q, config=...)\<close> invokes it, with the configuration given (if any).
  Every other statement (imports, the construction of the store, of the prompt, of the
  model and of the retriever) is no step of the sequence. Search parameters and
  configurations are read as the values their literals denote; one that is not a literal
  would read as none, and the notebook has only literals.
\<close>

datatype event =
    Init_connection
  | Insert_texts "pyval list"
  | Retrieval "pyval option"
  | Compose_pipeline nat
  | Invoke_pipeline "pyval option"

fun event_of_call :: "expr \<Rightarrow> event option" where
  "event_of_call (Call (Attribute (Name r) m) args kws) =
     (if r = ''cassio'' \<and> m = ''init'' then Some Init_connection
      else if r = ''vectorstore'' \<and> m = ''add_texts'' then
        (case map literal args of
           [Some (PyList ts)] \<Rightarrow> Some (Insert_texts ts)
         | _ \<Rightarrow> None)
      else if r = ''chain'' \<and> m = ''invoke'' then
        Some (Invoke_pipeline (Option.bind (map_of kws ''config'') literal))
      else None)"
| "event_of_call (Call (Attribute (Call (Attribute (Name r) m') rargs rkws) m) args kws) =
     (if r = ''vectorstore'' \<and> m' = ''as_retriever'' \<and> m = ''invoke'' then
        Some (Retrieval (Option.bind (map_of rkws ''search_kwargs'') literal))
      else None)"
| "event_of_call e = None"

fun event_of :: "stmt \<Rightarrow> event option" where
  "event_of (Expr e) = event_of_call e"
| "event_of (Assign x (BitOr a b)) =
     (if x = ''chain'' then Some (Compose_pipeline (length (pipeline_stages (BitOr a b))))
      else None)"
| "event_of s = None"

definition events :: "notebook \<Rightarrow> event list" where
  "events nb = List.map_filter event_of (top_level_stmts nb)"

text \<open>The identifier a \<^verbatim>\<open>configurable_fields\<close> call gives to a field of the retriever:
  \<^verbatim>\<open>r.configurable_fields(field=ConfigurableField(id=..., ...))\<close>.\<close>

fun configurable_field_id :: "expr \<Rightarrow> pyval option" where
  "configurable_field_id (Call (Name c) args kws) =
     (if c = ''ConfigurableField'' then Option.bind (map_of kws ''id'') literal else None)"
| "configurable_field_id e = None"

fun configurable_field_ids :: "expr \<Rightarrow> (string \<times> pyval option) list" where
  "configurable_field_ids (Call (Attribute r m) args kws) =
     (if m = ''configurable_fields'' then map (map_prod id configurable_field_id) kws else [])"
| "configurable_field_ids e = []"

definition configured_fields :: "notebook \<Rightarrow> (string \<times> pyval option) list" where
  "configured_fields nb = concat (map configurable_field_ids (notebook_calls nb))"

section \<open>The library behind the hybrid-search notebook\<close>

text \<open>
  Modelled from the spec: the retrieval of the vector store. The store, its retriever
  and the database behind them are not among the sources; the notebook and the
  specification describe them as a vector-similarity search combined with a keyword
  filter, the \<^verbatim>\<open>body_search\<close> argument filtering the search on a term. The store is
  created with the standard index analyzer, "needed to enable term matching": a text
  matches a term when the term is one of its words, letter case apart. The order of the
  documents by similarity to the query is decided by the embedding model and is a
  parameter here (\<open>ranked\<close>); a search returns at most four documents, the default of
  the retriever.
\<close>

definition lower_char :: "char \<Rightarrow> char" where
  "lower_char c =
     (let n = (of_char c :: nat) in if 65 \<le> n \<and> n \<le> 90 then char_of (n + 32) else c)"

definition is_alnum :: "char \<Rightarrow> bool" where
  "is_alnum c =
     (let n = (of_char c :: nat)
      in (48 \<le> n \<and> n \<le> 57) \<or> (65 \<le> n \<and> n \<le> 90) \<or> (97 \<le> n \<and> n \<le> 122))"

fun split_words :: "string \<Rightarrow> string \<Rightarrow> string list" where
  "split_words w [] = (if w = [] then [] else [w])"
| "split_words w (c # cs) =
     (if is_alnum c then split_words (w @ [lower_char c]) cs
      else if w = [] then split_words [] cs
      else w # split_words [] cs)"

definition analyzer_terms :: "string \<Rightarrow> string list" where
  "analyzer_terms text = split_words [] text"

definition matches_term :: "string \<Rightarrow> string \<Rightarrow> bool" where
  "matches_term t text = (map lower_char t \<in> set (analyzer_terms text))"

definition body_search_filter :: "pydict \<Rightarrow> string list \<Rightarrow> string list" where
  "body_search_filter kwargs docs =
     (case map_of kwargs ''body_search'' of
        Some (PyStr t) \<Rightarrow> filter (matches_term t) docs
      | _ \<Rightarrow> docs)"

datatype search_call = Similarity_search string pydict

fun similarity_search :: "string list \<Rightarrow> search_call \<Rightarrow> string list" where
  "similarity_search ranked (Similarity_search q kwargs) =
     take 4 (body_search_filter kwargs ranked)"

text \<open>
  Modelled from the spec: the retriever and its configurable field. The specification
  says that the example "merely passes a dictionary of search parameters through to an
  external database client"; the notebook says that all vector-store retrievers have
  \<^verbatim>\<open>search_kwargs\<close> as a field, "just a dictionary", and that the key under
  \<^verbatim>\<open>configurable\<close> is the id of the configurable field. A retriever holds its search
  parameters (none unless given); invoking it issues one search call with the query and
  those parameters; a retriever with a configurable field takes the parameters from the
  configuration of the invocation when the configuration has an entry under the
  field's id, and its own otherwise.
\<close>

record retriever =
  search_kwargs :: pydict

definition as_retriever :: "pyval option \<Rightarrow> retriever" where
  "as_retriever kw = \<lparr>search_kwargs = (case kw of Some (PyDict d) \<Rightarrow> d | _ \<Rightarrow> [])\<rparr>"

definition retriever_invoke :: "retriever \<Rightarrow> string \<Rightarrow> search_call" where
  "retriever_invoke r q = Similarity_search q (search_kwargs r)"

record configurable_retriever =
  default_retriever :: retriever
  search_kwargs_id :: string

definition configurable_fields :: "retriever \<Rightarrow> string \<Rightarrow> configurable_retriever" where
  "configurable_fields r i = \<lparr>default_retriever = r, search_kwargs_id = i\<rparr>"

definition with_config :: "configurable_retriever \<Rightarrow> pyval option \<Rightarrow> retriever" where
  "with_config cr config =
     (case config of
        Some (PyDict c) \<Rightarrow>
          (case map_of c ''configurable'' of
             Some (PyDict conf) \<Rightarrow>
               (case map_of conf (search_kwargs_id cr) of
                  Some (PyDict kw) \<Rightarrow> (default_retriever cr)\<lparr>search_kwargs := kw\<rparr>
                | _ \<Rightarrow> default_retriever cr)
           | _ \<Rightarrow> default_retriever cr)
      | _ \<Rightarrow> default_retriever cr)"

text \<open>The chain of the notebook: its first stage hands the question to the configurable
  retriever made from \<^verbatim>\<open>vectorstore.as_retriever()\<close> with the field id
  \<^verbatim>\<open>"search_kwargs"\<close>. The search call that an invocation issues:\<close>

definition chain_search_call :: "string \<Rightarrow> pyval option \<Rightarrow> search_call" where
  "chain_search_call q config =
     retriever_invoke
       (with_config (configurable_fields (as_retriever None) ''search_kwargs'') config) q"

section \<open>Streams of partial results\<close>

text \<open>The fields of a parsed joke, as a dict.\<close>

definition Joke_dict :: "Joke \<Rightarrow> pydict" where
  "Joke_dict j = [(''setup'', PyStr (setup j)), (''punchline'', PyStr (punchline j))]"

text \<open>One partial result grows into the next: every string field of the first is a
  field of the second, with a string value that extends it.\<close>

fun field_grows :: "pydict \<Rightarrow> string \<times> pyval \<Rightarrow> bool" where
  "field_grows d' (k, PyStr s) =
     (case map_of d' k of Some (PyStr s') \<Rightarrow> prefix s s' | _ \<Rightarrow> False)"
| "field_grows d' (k, v) = True"

definition grows_into :: "pydict \<Rightarrow> pydict \<Rightarrow> bool" where
  "grows_into d d' = list_all (field_grows d') d"

fun monotone_stream :: "pydict list \<Rightarrow> bool" where
  "monotone_stream (d # d' # ds) = (grows_into d d' \<and> monotone_stream (d' # ds))"
| "monotone_stream ds = True"

section \<open>Streaming through a parser\<close>

text \<open>
  Modelled from the spec: the parser's two ways of being run, which are library code and
  not among the sources. The specification's sequence is "parse its text output", then
  "demonstrate incremental (partial) parsing during streaming output"; the notebook says
  that a parser takes in a string and parses it into some structure, and that certain
  parsers can stream through partially parsed objects. A parser is its parse function,
  from the text to the structure, with no result on a text it cannot parse. Invoking the
  parser on a complete output parses that text, and fails when it does not parse.
  Streaming receives the output in chunks: after each chunk the text received so far is
  parsed, and the result is yielded when there is one and it differs from the one
  yielded last.
\<close>

datatype parser_error = OutputParserException

definition parser_invoke :: "(string \<Rightarrow> 'a option) \<Rightarrow> string \<Rightarrow> parser_error + 'a" where
  "parser_invoke parse text =
     (case parse text of None \<Rightarrow> Inl OutputParserException | Some v \<Rightarrow> Inr v)"

fun stream_from ::
  "(string \<Rightarrow> 'a option) \<Rightarrow> string \<Rightarrow> 'a option \<Rightarrow> string list \<Rightarrow> 'a list" where
  "stream_from parse acc prev [] = []"
| "stream_from parse acc prev (c # cs) =
     (case parse (acc @ c) of
        None \<Rightarrow> stream_from parse (acc @ c) prev cs
      | Some v \<Rightarrow>
          if Some v \<noteq> prev then v # stream_from parse (acc @ c) (Some v) cs
          else stream_from parse (acc @ c) prev cs)"

definition parser_stream :: "(string \<Rightarrow> 'a option) \<Rightarrow> string list \<Rightarrow> 'a list" where
  "parser_stream parse chunks = stream_from parse [] None chunks"

text \<open>
  One streaming run that yields the JSON sequence the notebook shows: a partial parser
  for an object with the single string field \<^verbatim>\<open>answer\<close> (an open brace alone is the
  empty object; after \<^verbatim>\<open>{"answer": "\<close> the field holds the characters received, less
  the closing \<^verbatim>\<open>"}\<close> once it has come), and a model output cut into chunks. The
  double quote is the character 0x22.
\<close>

definition answer_open :: string where
  "answer_open = ''{'' @ [CHR 0x22] @ ''answer'' @ [CHR 0x22] @ '': '' @ [CHR 0x22]"

definition answer_close :: string where
  "answer_close = [CHR 0x22] @ ''}''"

definition parse_answer_object :: "string \<Rightarrow> pydict option" where
  "parse_answer_object text =
     (if text = ''{'' then Some []
      else if prefix answer_open text then
        (let body = drop (length answer_open) text
         in Some [(''answer'',
                   PyStr (if suffix answer_close body
                          then take (length body - length answer_close) body else body))])
      else None)"

definition answer_chunks :: "string list" where
  "answer_chunks =
    [''{'', [CHR 0x22] @ ''answer'' @ [CHR 0x22], '': '', [CHR 0x22], ''Ant'', ''on'', ''ie'',
     '' van'', '' Lee'', ''u'', ''wen'', ''ho'', ''ek'', [CHR 0x22] @ ''}'']"

section \<open>The inputs of the examples\<close>

text \<open>The three texts that \<^verbatim>\<open>vectorstore.add_texts\<close> inserts, in the order of the
  call, and the question of every retrieval and chain invocation.\<close>

definition inserted_texts :: "string list" where
  "inserted_texts =
    [''In 2023, I visited Paris'', ''In 2022, I visited New York'',
     ''In 2021, I visited New Orleans'']"

definition question_text :: string where
  "question_text = ''What city did I visit last?''"

section \<open>Properties of the validator\<close>

lemma validator_on_str:
  "dict_get values ''setup'' = PyStr s \<Longrightarrow>
   question_ends_with_question_mark values =
     (if s \<noteq> [] \<and> last s \<noteq> CHR ''?'' then Inl (ValueError ''Badly formed question!'')
      else Inr values)"
  by (simp add: question_ends_with_question_mark_def ne_str_def)

lemma validator_on_none:
  "dict_get values ''setup'' = PyNone \<Longrightarrow> question_ends_with_question_mark values = Inr values"
  by (simp add: question_ends_with_question_mark_def)

lemma validator_returns_input:
  "question_ends_with_question_mark values = Inr vs \<Longrightarrow> vs = values"
  by (auto simp: question_ends_with_question_mark_def Let_def split: if_splits sum.splits)

lemma field_str_dict_get:
  "field_str values k = Some s \<Longrightarrow> dict_get values k = PyStr s"
  by (auto simp: field_str_def dict_get_def split: option.splits pyval.splits)

text \<open>What the validator does on a setup that is not a string: a falsy value passes; a
  non-empty list is judged by its last element; a non-empty dict, a true boolean and a
  non-zero number make the subscript fail.\<close>

lemma validator_on_list:
  "dict_get values ''setup'' = PyList xs \<Longrightarrow>
   question_ends_with_question_mark values =
     (if xs \<noteq> [] \<and> last xs \<noteq> PyStr ''?'' then Inl (ValueError ''Badly formed question!'')
      else Inr values)"
  by (simp add: question_ends_with_question_mark_def ne_str_def)

lemma validator_on_dict:
  "dict_get values ''setup'' = PyDict d \<Longrightarrow>
   question_ends_with_question_mark values = (if d \<noteq> [] then Inl KeyError else Inr values)"
  by (simp add: question_ends_with_question_mark_def)

lemma validator_on_int:
  "dict_get values ''setup'' = PyInt i \<Longrightarrow>
   question_ends_with_question_mark values = (if i \<noteq> 0 then Inl TypeError else Inr values)"
  by (simp add: question_ends_with_question_mark_def)

lemma validator_on_bool:
  "dict_get values ''setup'' = PyBool b \<Longrightarrow>
   question_ends_with_question_mark values = (if b then Inl TypeError else Inr values)"
  by (simp add: question_ends_with_question_mark_def)

text \<open>Building a joke from a dict whose two fields are strings.\<close>

lemma Joke_validate_str_fields:
  assumes "field_str values ''setup'' = Some s" and "field_str values ''punchline'' = Some p"
  shows "Joke_validate values =
     (if s \<noteq> [] \<and> last s \<noteq> CHR ''?''
      then Inl (Raised_in_validator (ValueError ''Badly formed question!''))
      else Inr \<lparr>setup = s, punchline = p\<rparr>)"
proof -
  from assms(1) have g: "dict_get values ''setup'' = PyStr s"
    by (rule field_str_dict_get)
  show ?thesis
    using assms by (simp add: Joke_validate_def validator_on_str [OF g])
qed

lemma Joke_validate_setup:
  assumes "Joke_validate values = Inr j"
  shows "dict_get values ''setup'' = PyStr (setup j) \<and> (setup j = [] \<or> last (setup j) = CHR ''?'')"
proof -
  from assms obtain vs where v: "question_ends_with_question_mark values = Inr vs"
    and f: "field_str vs ''setup'' = Some (setup j)"
    by (auto simp: Joke_validate_def split: sum.splits option.splits)
  from v have "vs = values" by (rule validator_returns_input)
  with f have g: "dict_get values ''setup'' = PyStr (setup j)"
    by (simp add: field_str_dict_get)
  from validator_on_str [OF g] v show ?thesis
    using g by (auto split: if_splits)
qed

section \<open>Properties of the retrieval model\<close>

lemma matches_new_inserted:
  "matches_term ''new'' ''In 2023, I visited Paris'' = False"
  "matches_term ''new'' ''In 2022, I visited New York'' = True"
  "matches_term ''new'' ''In 2021, I visited New Orleans'' = True"
  by code_simp+

lemma inserted_texts_in_notebook:
  "List.member (events hybrid_ipynb) (Insert_texts (map PyStr inserted_texts))"
  by code_simp

lemma ranked_inserted:
  assumes "mset ranked = mset inserted_texts"
  shows "set ranked = set inserted_texts" and "length ranked = 3"
proof -
  from assms show "set ranked = set inserted_texts" by (rule mset_eq_setD)
  from assms have "length ranked = length inserted_texts" by (rule mset_eq_length)
  then show "length ranked = 3" by (simp add: inserted_texts_def)
qed

lemma body_search_new_ranked:
  assumes "mset ranked = mset inserted_texts"
  shows "body_search_filter [(''body_search'', PyStr ''new'')] ranked
         = filter (\<lambda>d. d \<in> set (tl inserted_texts)) ranked"
proof -
  have "matches_term ''new'' d = (d \<in> set (tl inserted_texts))" if "d \<in> set ranked" for d
  proof -
    from that ranked_inserted(1) [OF assms] have "d \<in> set inserted_texts" by simp
    then consider "d = ''In 2023, I visited Paris''" | "d = ''In 2022, I visited New York''"
      | "d = ''In 2021, I visited New Orleans''"
      by (auto simp: inserted_texts_def)
    then show ?thesis
      by cases (simp_all only: matches_new_inserted, simp_all add: inserted_texts_def)
  qed
  then have "filter (matches_term ''new'') ranked = filter (\<lambda>d. d \<in> set (tl inserted_texts)) ranked"
    by (intro filter_cong) auto
  then show ?thesis by (simp add: body_search_filter_def)
qed

section \<open>Properties of the streaming model\<close>

text \<open>When the complete text parses, the stream ends with that parse: either something
  is yielded and the last of it is the parse, or nothing new is yielded because the
  parse was the result yielded last.\<close>

lemma stream_from_last:
  "parse (acc @ concat cs) = Some v \<Longrightarrow>
   (if stream_from parse acc prev cs = [] then cs = [] \<or> prev = Some v
    else last (stream_from parse acc prev cs) = v)"
proof (induction cs arbitrary: acc prev)
  case Nil
  then show ?case by simp
next
  case (Cons c cs)
  from Cons.prems have full: "parse ((acc @ c) @ concat cs) = Some v" by simp
  have final: "parse (acc @ c) = Some v" if "cs = []"
    using that full by simp
  show ?case
  proof (cases "parse (acc @ c)")
    case None
    then have out: "stream_from parse acc prev (c # cs) = stream_from parse (acc @ c) prev cs"
      by simp
    from None final have "cs \<noteq> []" by auto
    with Cons.IH [OF full, of prev] show ?thesis
      unfolding out by (simp split: if_splits)
  next
    case (Some w)
    show ?thesis
    proof (cases "prev = Some w")
      case True
      with Some have out: "stream_from parse acc prev (c # cs) = stream_from parse (acc @ c) prev cs"
        by simp
      show ?thesis
      proof (cases "cs = []")
        case True
        with final Some \<open>prev = Some w\<close> show ?thesis by simp
      next
        case False
        with Cons.IH [OF full, of prev] show ?thesis
          unfolding out by (simp split: if_splits)
      qed
    next
      case False
      with Some have out: "stream_from parse acc prev (c # cs)
          = w # stream_from parse (acc @ c) (Some w) cs"
        by auto
      show ?thesis
      proof (cases "cs = []")
        case True
        with final Some show ?thesis unfolding out by simp
      next
        case False
        with Cons.IH [OF full, of "Some w"] show ?thesis
          unfolding out by (simp split: if_splits)
      qed
    qed
  qed
qed

lemma parser_stream_last:
  assumes "chunks \<noteq> []" and "parse (concat chunks) = Some v"
  shows "parser_stream parse chunks \<noteq> [] \<and> last (parser_stream parse chunks) = v
         \<and> parser_invoke parse (concat chunks) = Inr v"
proof -
  from assms(2) have "parse ([] @ concat chunks) = Some v" by simp
  then have "if stream_from parse [] None chunks = [] then chunks = [] \<or> None = Some v
    else last (stream_from parse [] None chunks) = v"
    by (rule stream_from_last)
  with assms show ?thesis
    by (simp add: parser_stream_def parser_invoke_def split: if_splits)
qed

lemma parser_stream_nonempty:
  "parser_stream parse chunks \<noteq> [] \<Longrightarrow> chunks \<noteq> []"
  by (auto simp: parser_stream_def)

lemma answer_stream_recorded:
  "parser_stream parse_answer_object answer_chunks = parser_output_cc2b999e"
  "parse_answer_object (concat answer_chunks) = Some [(''answer'', PyStr ''Antonie van Leeuwenhoek'')]"
  by code_simp+

section \<open>The claims\<close>

text \<open>
  C1. For the three inserted texts, a retrieval with the keyword filter
  \<^verbatim>\<open>{"body_search": "new"}\<close> returns exactly the two records whose text contains the
  term "new", New York before New Orleans, and the retrieval with no keyword filter
  returns all three. The retrieval itself is the library's; against the model of it
  above: whatever order the similarity to the query gives the three texts, the filtered
  call returns the New York and the New Orleans record in that order of similarity and
  the unfiltered call returns all three; with the order the notebook records for the
  unfiltered call (New York, Paris, New Orleans) the filtered call returns the list the
  notebook records for it, New York then New Orleans.
\<close>

theorem C1_body_search_retrieval:
  "(mset ranked = mset inserted_texts \<longrightarrow>
      similarity_search ranked
        (retriever_invoke (as_retriever (Some (PyDict [(''body_search'', PyStr ''new'')]))) q)
        = filter (\<lambda>d. d \<in> set [''In 2022, I visited New York'', ''In 2021, I visited New Orleans''])
            ranked
      \<and> similarity_search ranked (retriever_invoke (as_retriever None) q) = ranked)
   \<and> mset hybrid_output_3c2a39fa = mset inserted_texts
   \<and> similarity_search hybrid_output_3c2a39fa
        (retriever_invoke (as_retriever (Some (PyDict [(''body_search'', PyStr ''new'')]))) q)
        = hybrid_output_56393baa
   \<and> hybrid_output_56393baa = [''In 2022, I visited New York'', ''In 2021, I visited New Orleans'']"
proof -
  have general: "similarity_search r
        (retriever_invoke (as_retriever (Some (PyDict [(''body_search'', PyStr ''new'')]))) q)
        = filter (\<lambda>d. d \<in> set [''In 2022, I visited New York'', ''In 2021, I visited New Orleans'']) r
      \<and> similarity_search r (retriever_invoke (as_retriever None) q) = r"
    if r: "mset r = mset inserted_texts" for r
  proof -
    have len: "length r = 3" using r by (rule ranked_inserted(2))
    have "length (filter (\<lambda>d. d \<in> set (tl inserted_texts)) r) \<le> 3"
      using length_filter_le [of _ r] len by simp
    then show ?thesis
      using len body_search_new_ranked [OF r]
      by (simp add: retriever_invoke_def as_retriever_def body_search_filter_def
          inserted_texts_def)
  qed
  have recorded: "mset hybrid_output_3c2a39fa = mset inserted_texts"
    by (simp add: hybrid_output_3c2a39fa_def inserted_texts_def)
  have filtered: "filter (\<lambda>d. d \<in> set [''In 2022, I visited New York'', ''In 2021, I visited New Orleans''])
      hybrid_output_3c2a39fa = hybrid_output_56393baa"
    by (simp add: hybrid_output_3c2a39fa_def hybrid_output_56393baa_def)
  have shown: "hybrid_output_56393baa
      = [''In 2022, I visited New York'', ''In 2021, I visited New Orleans'']"
    by (simp add: hybrid_output_56393baa_def)
  from general [OF recorded] filtered have
    "similarity_search hybrid_output_3c2a39fa
        (retriever_invoke (as_retriever (Some (PyDict [(''body_search'', PyStr ''new'')]))) q)
        = hybrid_output_56393baa"
    by simp
  with general recorded shown show ?thesis by blast
qed

theorem C1_body_search_retrieval_witness:
  "mset inserted_texts = mset inserted_texts
   \<and> similarity_search inserted_texts
        (retriever_invoke (as_retriever (Some (PyDict [(''body_search'', PyStr ''new'')])))
           question_text)
       = [''In 2022, I visited New York'', ''In 2021, I visited New Orleans'']
   \<and> similarity_search inserted_texts (retriever_invoke (as_retriever None) question_text)
       = inserted_texts"
proof -
  have same: "mset inserted_texts = mset inserted_texts" by simp
  with C1_body_search_retrieval [of inserted_texts question_text]
  have filtered: "similarity_search inserted_texts
        (retriever_invoke (as_retriever (Some (PyDict [(''body_search'', PyStr ''new'')])))
           question_text)
       = filter (\<lambda>d. d \<in> set [''In 2022, I visited New York'', ''In 2021, I visited New Orleans''])
           inserted_texts"
    and standard: "similarity_search inserted_texts
        (retriever_invoke (as_retriever None) question_text) = inserted_texts"
    by blast+
  have "filter (\<lambda>d. d \<in> set [''In 2022, I visited New York'', ''In 2021, I visited New Orleans''])
           inserted_texts
       = [''In 2022, I visited New York'', ''In 2021, I visited New Orleans'']"
    by (simp add: inserted_texts_def)
  with filtered standard same show ?thesis by simp
qed

text \<open>
  C2 as stated: the schema carries no invariant, so that every pair of strings makes an
  admissible instance. It fails: the validator of the schema rejects the pair below,
  whose setup does not end with a question mark.
\<close>

theorem C2_counterexample:
  "Joke_new ''Tell me a joke.'' ''No.''
     = Inl (Raised_in_validator (ValueError ''Badly formed question!''))"
  by code_simp

text \<open>
  C2 (amended). The schema carries one invariant, which its validator enforces: the
  setup is empty or ends with a question mark. For every pair of strings with such a
  setup, \<^verbatim>\<open>Joke(setup=s, punchline=p)\<close> is an instance holding exactly the two strings;
  for every other pair the construction fails with the validator's ValueError. The
  punchline is not constrained.
\<close>

theorem C2_joke_instances:
  "Joke_new s p =
     (if s = [] \<or> last s = CHR ''?'' then Inr \<lparr>setup = s, punchline = p\<rparr>
      else Inl (Raised_in_validator (ValueError ''Badly formed question!'')))"
proof -
  let ?d = "[(''setup'', PyStr s), (''punchline'', PyStr p)]"
  have f: "field_str ?d ''setup'' = Some s" "field_str ?d ''punchline'' = Some p"
    by (simp_all add: field_str_def)
  show ?thesis
    unfolding Joke_new_def using Joke_validate_str_fields [OF f] by auto
qed

text \<open>
  C3 as stated: no code of the repository branches, and no function it defines has a
  result that depends on a test of its input. It fails: the notebook defines the
  validator, whose body is an \<^verbatim>\<open>if\<close>, and which raises on one dict and returns the
  other.
\<close>

theorem C3_counterexample:
  "branching_functions output_parser_structured_ipynb = [''question_ends_with_question_mark'']
   \<and> question_ends_with_question_mark [(''setup'', PyStr ''Tell me a joke'')]
       = Inl (ValueError ''Badly formed question!'')
   \<and> question_ends_with_question_mark [(''setup'', PyStr ''Why?'')]
       = Inr [(''setup'', PyStr ''Why?'')]"
  by code_simp

text \<open>
  C3 (amended). Neither of the two call sequences branches: the statements the cells of
  the two notebooks run hold no \<^verbatim>\<open>if\<close>, loop or \<^verbatim>\<open>try\<close> and no short-circuit
  operator. The hybrid-search notebook defines no function. The structured-output
  notebook defines one, the validator \<^verbatim>\<open>question_ends_with_question_mark\<close>, and that
  one does branch: it returns its input exactly when the \<^verbatim>\<open>setup\<close> entry is falsy or
  its last element is the string \<^verbatim>\<open>?\<close>, and raises otherwise (it never returns
  anything but its input, and it raises exactly when the entry is truthy and its last
  element is not the string \<^verbatim>\<open>?\<close>).
\<close>

theorem C3_only_the_validator_branches:
  "branch_points (top_level_stmts hybrid_ipynb) = []
   \<and> branch_points (top_level_stmts output_parser_structured_ipynb) = []
   \<and> defined_functions hybrid_ipynb = []
   \<and> map fst (defined_functions output_parser_structured_ipynb)
       = [''question_ends_with_question_mark'']
   \<and> branching_functions output_parser_structured_ipynb
       = [''question_ends_with_question_mark'']
   \<and> ((question_ends_with_question_mark values = Inr values) =
        (if truthy (dict_get values ''setup'')
         then subscript_last (dict_get values ''setup'') = Inr (PyStr ''?'') else True))
   \<and> ((\<exists>e. question_ends_with_question_mark values = Inl e) =
        (truthy (dict_get values ''setup'')
         \<and> subscript_last (dict_get values ''setup'') \<noteq> Inr (PyStr ''?'')))
   \<and> ((\<exists>vs. question_ends_with_question_mark values = Inr vs) =
        (question_ends_with_question_mark values = Inr values))"
proof -
  have shape: "branch_points (top_level_stmts hybrid_ipynb) = []
   \<and> branch_points (top_level_stmts output_parser_structured_ipynb) = []
   \<and> defined_functions hybrid_ipynb = []
   \<and> map fst (defined_functions output_parser_structured_ipynb)
       = [''question_ends_with_question_mark'']
   \<and> branching_functions output_parser_structured_ipynb
       = [''question_ends_with_question_mark'']"
    by code_simp
  have test: "(question_ends_with_question_mark values = Inr values) =
        (if truthy (dict_get values ''setup'')
         then subscript_last (dict_get values ''setup'') = Inr (PyStr ''?'') else True)"
    by (auto simp: question_ends_with_question_mark_def Let_def ne_str_def split: sum.splits)
  have raises: "(\<exists>e. question_ends_with_question_mark values = Inl e) =
        (truthy (dict_get values ''setup'')
         \<and> subscript_last (dict_get values ''setup'') \<noteq> Inr (PyStr ''?''))"
    by (auto simp: question_ends_with_question_mark_def Let_def ne_str_def split: sum.splits)
  have same: "(\<exists>vs. question_ends_with_question_mark values = Inr vs) =
        (question_ends_with_question_mark values = Inr values)"
    using validator_returns_input by blast
  from shape test raises same show ?thesis by simp
qed

text \<open>
  C4 as stated: the repository's code raises nothing, so every failure of validation
  while parsing into the schema comes from the library. It fails: for the dict below,
  whose two fields are strings, the failure is the ValueError raised by the validator
  that the notebook defines.
\<close>

theorem C4_counterexample:
  "Joke_validate [(''setup'', PyStr ''Knock knock''), (''punchline'', PyStr ''Who is there?'')]
     = Inl (Raised_in_validator (ValueError ''Badly formed question!''))"
  by code_simp

text \<open>
  C4 (amended). The repository's code handles no error and recovers from none: neither
  notebook holds a \<^verbatim>\<open>try\<close>. It does raise, in one place: the \<^verbatim>\<open>raise\<close> of the
  validator \<^verbatim>\<open>question_ends_with_question_mark\<close>. A failure while a dict is parsed
  into the schema comes from the repository's validator exactly when the validator
  fails on that dict, and from the library's check of the fields exactly when the
  validator returns and a field is missing or not a string. When both fields are
  strings the only possible failure is the validator's ValueError, for a non-empty
  setup that does not end with a question mark.
\<close>

theorem C4_error_origin:
  "filter is_try (all_stmts hybrid_ipynb) = []
   \<and> filter is_try (all_stmts output_parser_structured_ipynb) = []
   \<and> filter is_raise (all_stmts hybrid_ipynb) = []
   \<and> filter is_raise (all_stmts output_parser_structured_ipynb)
       = [Raise (Call (Name ''ValueError'') [Str ''Badly formed question!''] [])]
   \<and> raising_functions output_parser_structured_ipynb = [''question_ends_with_question_mark'']
   \<and> ((Joke_validate values = Inl (Raised_in_validator e))
        = (question_ends_with_question_mark values = Inl e))
   \<and> ((\<exists>fs. Joke_validate values = Inl (Library_field_errors fs))
        = (question_ends_with_question_mark values = Inr values
           \<and> (field_str values ''setup'' = None \<or> field_str values ''punchline'' = None)))
   \<and> (field_str values ''setup'' = Some s \<and> field_str values ''punchline'' = Some p \<longrightarrow>
        Joke_validate values =
          (if s \<noteq> [] \<and> last s \<noteq> CHR ''?''
           then Inl (Raised_in_validator (ValueError ''Badly formed question!''))
           else Inr \<lparr>setup = s, punchline = p\<rparr>))"
proof -
  have shape: "filter is_try (all_stmts hybrid_ipynb) = []
   \<and> filter is_try (all_stmts output_parser_structured_ipynb) = []
   \<and> filter is_raise (all_stmts hybrid_ipynb) = []
   \<and> filter is_raise (all_stmts output_parser_structured_ipynb)
       = [Raise (Call (Name ''ValueError'') [Str ''Badly formed question!''] [])]
   \<and> raising_functions output_parser_structured_ipynb = [''question_ends_with_question_mark'']"
    by code_simp
  have repo: "(Joke_validate values = Inl (Raised_in_validator e))
        = (question_ends_with_question_mark values = Inl e)"
    by (auto simp: Joke_validate_def split: sum.splits option.splits)
  have lib: "(\<exists>fs. Joke_validate values = Inl (Library_field_errors fs))
        = (question_ends_with_question_mark values = Inr values
           \<and> (field_str values ''setup'' = None \<or> field_str values ''punchline'' = None))"
    by (auto simp: Joke_validate_def split: sum.splits option.splits
        dest: validator_returns_input)
  have strs: "field_str values ''setup'' = Some s \<and> field_str values ''punchline'' = Some p \<longrightarrow>
        Joke_validate values =
          (if s \<noteq> [] \<and> last s \<noteq> CHR ''?''
           then Inl (Raised_in_validator (ValueError ''Badly formed question!''))
           else Inr \<lparr>setup = s, punchline = p\<rparr>)"
    using Joke_validate_str_fields by blast
  from shape repo lib strs show ?thesis
    by blast
qed

theorem C4_error_origin_witness:
  "field_str [(''setup'', PyStr ''Tell me a joke''), (''punchline'', PyStr ''No'')] ''setup''
     = Some ''Tell me a joke''
   \<and> field_str [(''setup'', PyStr ''Tell me a joke''), (''punchline'', PyStr ''No'')] ''punchline''
     = Some ''No''
   \<and> Joke_validate [(''setup'', PyStr ''Tell me a joke''), (''punchline'', PyStr ''No'')]
     = Inl (Raised_in_validator (ValueError ''Badly formed question!''))"
proof -
  let ?d = "[(''setup'', PyStr ''Tell me a joke''), (''punchline'', PyStr ''No'')]"
  have f: "field_str ?d ''setup'' = Some ''Tell me a joke''"
    "field_str ?d ''punchline'' = Some ''No''"
    by (simp_all add: field_str_def)
  with C4_error_origin [of ?d _ "''Tell me a joke''" "''No''"]
  have "Joke_validate ?d =
          (if ''Tell me a joke'' \<noteq> [] \<and> last ''Tell me a joke'' \<noteq> CHR ''?''
           then Inl (Raised_in_validator (ValueError ''Badly formed question!''))
           else Inr \<lparr>setup = ''Tell me a joke'', punchline = ''No''\<rparr>)"
    by blast
  then have "Joke_validate ?d = Inl (Raised_in_validator (ValueError ''Badly formed question!''))"
    by simp
  with f show ?thesis by simp
qed

text \<open>
  C5 as stated: for every input dict the validator raises the ValueError exactly when
  the \<^verbatim>\<open>setup\<close> value is a non-empty string not ending in \<^verbatim>\<open>?\<close>, and returns the dict
  unchanged in every other case. It fails on dicts whose \<^verbatim>\<open>setup\<close> is not a string,
  which the validator can receive since it runs before the fields are checked: for a
  list the ValueError is raised although the value is no string, and for a number the
  subscript fails with a TypeError, which is neither the ValueError nor a return.
\<close>

theorem C5_counterexample:
  "question_ends_with_question_mark [(''setup'', PyList [PyStr ''Why'']), (''punchline'', PyStr ''x'')]
     = Inl (ValueError ''Badly formed question!'')
   \<and> question_ends_with_question_mark [(''setup'', PyInt 5), (''punchline'', PyStr ''x'')]
     = Inl TypeError"
  by code_simp

text \<open>
  C5 (amended). For every input dict whose \<^verbatim>\<open>setup\<close> entry is absent, \<^verbatim>\<open>None\<close> or a
  string, the validator raises \<^verbatim>\<open>ValueError("Badly formed question!")\<close> if and only if
  the entry is a non-empty string whose last character is not \<^verbatim>\<open>?\<close>, and otherwise
  returns the input dict unchanged. For every input dict, whatever its \<^verbatim>\<open>setup\<close>,
  parsing succeeds only when the setup is a string that is empty or ends with a question
  mark. On a setup that is not a string the validator tests the truth value and the last
  element: an empty list, an empty dict, \<^verbatim>\<open>False\<close> and zero are returned with the dict
  unchanged; a non-empty list raises the ValueError exactly when its last element is not
  the string \<^verbatim>\<open>?\<close>; a non-empty dict fails with KeyError, and \<^verbatim>\<open>True\<close> and a non-zero
  number fail with TypeError, at \<^verbatim>\<open>setup[-1]\<close>.
\<close>

theorem C5_validator_on_string_setup:
  "(dict_get values ''setup'' = PyNone \<or> (\<exists>s. dict_get values ''setup'' = PyStr s) \<longrightarrow>
      question_ends_with_question_mark values =
        (if (\<exists>s. dict_get values ''setup'' = PyStr s \<and> s \<noteq> [] \<and> last s \<noteq> CHR ''?'')
         then Inl (ValueError ''Badly formed question!'') else Inr values))
   \<and> (\<forall>j. Joke_validate values = Inr j \<longrightarrow>
          dict_get values ''setup'' = PyStr (setup j)
          \<and> (setup j = [] \<or> last (setup j) = CHR ''?''))
   \<and> (\<forall>xs. dict_get values ''setup'' = PyList xs \<longrightarrow>
          question_ends_with_question_mark values =
            (if xs \<noteq> [] \<and> last xs \<noteq> PyStr ''?''
             then Inl (ValueError ''Badly formed question!'') else Inr values))
   \<and> (\<forall>d. dict_get values ''setup'' = PyDict d \<longrightarrow>
          question_ends_with_question_mark values =
            (if d \<noteq> [] then Inl KeyError else Inr values))
   \<and> (\<forall>i. dict_get values ''setup'' = PyInt i \<longrightarrow>
          question_ends_with_question_mark values =
            (if i \<noteq> 0 then Inl TypeError else Inr values))
   \<and> (\<forall>b. dict_get values ''setup'' = PyBool b \<longrightarrow>
          question_ends_with_question_mark values =
            (if b then Inl TypeError else Inr values))"
proof -
  have strings: "question_ends_with_question_mark values =
      (if (\<exists>s. dict_get values ''setup'' = PyStr s \<and> s \<noteq> [] \<and> last s \<noteq> CHR ''?'')
       then Inl (ValueError ''Badly formed question!'') else Inr values)"
    if "dict_get values ''setup'' = PyNone \<or> (\<exists>s. dict_get values ''setup'' = PyStr s)"
    using that
  proof
    assume "dict_get values ''setup'' = PyNone"
    then show ?thesis by (simp add: validator_on_none)
  next
    assume "\<exists>s. dict_get values ''setup'' = PyStr s"
    then obtain s where s: "dict_get values ''setup'' = PyStr s" ..
    show ?thesis using validator_on_str [OF s] s by simp
  qed
  from strings Joke_validate_setup validator_on_list validator_on_dict validator_on_int
    validator_on_bool
  show ?thesis by blast
qed

theorem C5_validator_on_string_setup_witness:
  "dict_get [(''setup'', PyStr ''Tell me a joke''), (''punchline'', PyStr ''No'')] ''setup''
     = PyStr ''Tell me a joke''
   \<and> question_ends_with_question_mark
        [(''setup'', PyStr ''Tell me a joke''), (''punchline'', PyStr ''No'')]
     = Inl (ValueError ''Badly formed question!'')
   \<and> dict_get [(''punchline'', PyStr ''No'')] ''setup'' = PyNone
   \<and> question_ends_with_question_mark [(''punchline'', PyStr ''No'')]
     = Inr [(''punchline'', PyStr ''No'')]
   \<and> Joke_validate [(''setup'', PyStr ''Why?''), (''punchline'', PyStr ''No'')]
     = Inr \<lparr>setup = ''Why?'', punchline = ''No''\<rparr>
   \<and> dict_get [(''setup'', PyStr ''Why?''), (''punchline'', PyStr ''No'')] ''setup''
     = PyStr (setup \<lparr>setup = ''Why?'', punchline = ''No''\<rparr>)
   \<and> dict_get [(''setup'', PyList [PyStr ''Why''])] ''setup'' = PyList [PyStr ''Why'']
   \<and> question_ends_with_question_mark [(''setup'', PyList [PyStr ''Why''])]
     = Inl (ValueError ''Badly formed question!'')
   \<and> dict_get [(''setup'', PyDict [(''q'', PyStr ''Why?'')])] ''setup''
     = PyDict [(''q'', PyStr ''Why?'')]
   \<and> question_ends_with_question_mark [(''setup'', PyDict [(''q'', PyStr ''Why?'')])]
     = Inl KeyError
   \<and> dict_get [(''setup'', PyInt 5)] ''setup'' = PyInt 5
   \<and> question_ends_with_question_mark [(''setup'', PyInt 5)] = Inl TypeError
   \<and> dict_get [(''setup'', PyBool False)] ''setup'' = PyBool False
   \<and> question_ends_with_question_mark [(''setup'', PyBool False)]
     = Inr [(''setup'', PyBool False)]"
proof -
  let ?bad = "[(''setup'', PyStr ''Tell me a joke''), (''punchline'', PyStr ''No'')]"
  let ?none = "[(''punchline'', PyStr ''No'')]"
  let ?ok = "[(''setup'', PyStr ''Why?''), (''punchline'', PyStr ''No'')]"
  let ?list = "[(''setup'', PyList [PyStr ''Why''])]"
  let ?dict = "[(''setup'', PyDict [(''q'', PyStr ''Why?'')])]"
  let ?int = "[(''setup'', PyInt 5)]"
  let ?bool = "[(''setup'', PyBool False)]"
  have g: "dict_get ?bad ''setup'' = PyStr ''Tell me a joke''"
    and n: "dict_get ?none ''setup'' = PyNone"
    and l: "dict_get ?list ''setup'' = PyList [PyStr ''Why'']"
    and d: "dict_get ?dict ''setup'' = PyDict [(''q'', PyStr ''Why?'')]"
    and i: "dict_get ?int ''setup'' = PyInt 5"
    and b: "dict_get ?bool ''setup'' = PyBool False"
    by (simp_all add: dict_get_def)
  have ok: "Joke_validate ?ok = Inr \<lparr>setup = ''Why?'', punchline = ''No''\<rparr>"
    by code_simp
  from C5_validator_on_string_setup [of ?bad] g
  have "question_ends_with_question_mark ?bad =
      (if (\<exists>s. dict_get ?bad ''setup'' = PyStr s \<and> s \<noteq> [] \<and> last s \<noteq> CHR ''?'')
       then Inl (ValueError ''Badly formed question!'') else Inr ?bad)"
    by blast
  with g have bad: "question_ends_with_question_mark ?bad
      = Inl (ValueError ''Badly formed question!'')"
    by simp
  from C5_validator_on_string_setup [of ?none] n
  have "question_ends_with_question_mark ?none =
      (if (\<exists>s. dict_get ?none ''setup'' = PyStr s \<and> s \<noteq> [] \<and> last s \<noteq> CHR ''?'')
       then Inl (ValueError ''Badly formed question!'') else Inr ?none)"
    by blast
  with n have none: "question_ends_with_question_mark ?none = Inr ?none"
    by simp
  from C5_validator_on_string_setup [of ?ok] ok
  have parsed: "dict_get ?ok ''setup'' = PyStr (setup \<lparr>setup = ''Why?'', punchline = ''No''\<rparr>)"
    by blast
  from C5_validator_on_string_setup [of ?list] l
  have "question_ends_with_question_mark ?list =
      (if [PyStr ''Why''] \<noteq> [] \<and> last [PyStr ''Why''] \<noteq> PyStr ''?''
       then Inl (ValueError ''Badly formed question!'') else Inr ?list)"
    by blast
  then have list: "question_ends_with_question_mark ?list
      = Inl (ValueError ''Badly formed question!'')"
    by simp
  from C5_validator_on_string_setup [of ?dict] d
  have "question_ends_with_question_mark ?dict =
      (if [(''q'', PyStr ''Why?'')] \<noteq> [] then Inl KeyError else Inr ?dict)"
    by blast
  then have dict: "question_ends_with_question_mark ?dict = Inl KeyError"
    by simp
  from C5_validator_on_string_setup [of ?int] i
  have "question_ends_with_question_mark ?int =
      (if (5::int) \<noteq> 0 then Inl TypeError else Inr ?int)"
    by blast
  then have int: "question_ends_with_question_mark ?int = Inl TypeError"
    by simp
  from C5_validator_on_string_setup [of ?bool] b
  have "question_ends_with_question_mark ?bool =
      (if False then Inl TypeError else Inr ?bool)"
    by blast
  then have bool: "question_ends_with_question_mark ?bool = Inr ?bool"
    by simp
  from g bad n none ok parsed l list d dict i int b bool show ?thesis
    by blast
qed

text \<open>
  C6. The structured-output example calls exactly two operations on the parser:
  \<^verbatim>\<open>get_format_instructions\<close>, which produces the formatting instructions, and
  \<^verbatim>\<open>invoke\<close>, which parses the model's output into the schema (called twice). No other
  method is called on the variable \<^verbatim>\<open>parser\<close>, and none at all on the second parser,
  \<^verbatim>\<open>json_parser\<close>; both also stand as the last stage of a chain, and the calls of
  \<^verbatim>\<open>invoke\<close> and \<^verbatim>\<open>stream\<close> on those chains are calls on the chain.
\<close>

theorem C6_parser_operations:
  "methods_called_on ''parser'' output_parser_structured_ipynb
     = [''get_format_instructions'', ''invoke'', ''invoke'']
   \<and> remdups (methods_called_on ''parser'' output_parser_structured_ipynb)
     = [''get_format_instructions'', ''invoke'']
   \<and> methods_called_on ''json_parser'' output_parser_structured_ipynb = []
   \<and> methods_called_on ''chain'' output_parser_structured_ipynb = [''invoke'', ''stream'']
   \<and> methods_called_on ''json_chain'' output_parser_structured_ipynb = [''stream'']"
  by code_simp

text \<open>
  C7. The hybrid-search sequence, in order: initialises the connection to the database,
  inserts exactly three literal texts, issues exactly two retrieval calls with different
  keyword filters (none, then \<^verbatim>\<open>{"body_search": "new"}\<close>), composes a linear pipeline
  (four stages joined by \<^verbatim>\<open>|\<close>), and invokes the pipeline exactly twice with different
  configurations (none, then the \<^verbatim>\<open>search_kwargs\<close> under \<^verbatim>\<open>configurable\<close>).
\<close>

theorem C7_hybrid_sequence:
  "events hybrid_ipynb =
    [Init_connection,
     Insert_texts [PyStr ''In 2023, I visited Paris'', PyStr ''In 2022, I visited New York'',
                   PyStr ''In 2021, I visited New Orleans''],
     Retrieval None,
     Retrieval (Some (PyDict [(''body_search'', PyStr ''new'')])),
     Compose_pipeline 4,
     Invoke_pipeline None,
     Invoke_pipeline
       (Some (PyDict [(''configurable'',
                PyDict [(''search_kwargs'', PyDict [(''body_search'', PyStr ''new'')])])]))]"
  by code_simp

text \<open>
  C8. The dictionary of search parameters given at call time under the configurable
  field id \<^verbatim>\<open>search_kwargs\<close> reaches the search call unchanged: against the model of the
  retriever above, whatever dictionary the configuration holds under that id is, entry
  for entry, the keyword arguments of the search call, and with no configuration the
  retriever's own (empty) parameters are. The id the notebook declares for the field is
  the key its configuration uses, and the call that the configured invocation issues is
  the one the direct retrieval with \<^verbatim>\<open>{"body_search": "new"}\<close> issues.
\<close>

theorem C8_search_kwargs_pass_through:
  "chain_search_call q
      (Some (PyDict [(''configurable'', PyDict [(''search_kwargs'', PyDict d)])]))
     = Similarity_search q d
   \<and> chain_search_call q None = Similarity_search q []
   \<and> configured_fields hybrid_ipynb = [(''search_kwargs'', Some (PyStr ''search_kwargs''))]
   \<and> last (events hybrid_ipynb)
     = Invoke_pipeline
         (Some (PyDict [(''configurable'',
                  PyDict [(''search_kwargs'', PyDict [(''body_search'', PyStr ''new'')])])]))
   \<and> chain_search_call q
      (Some (PyDict [(''configurable'',
               PyDict [(''search_kwargs'', PyDict [(''body_search'', PyStr ''new'')])])]))
     = retriever_invoke (as_retriever (Some (PyDict [(''body_search'', PyStr ''new'')]))) q"
proof -
  have pass: "chain_search_call q
      (Some (PyDict [(''configurable'', PyDict [(''search_kwargs'', PyDict kw)])]))
     = Similarity_search q kw" for kw
    by (simp add: chain_search_call_def retriever_invoke_def with_config_def
        configurable_fields_def as_retriever_def)
  have none: "chain_search_call q None = Similarity_search q []"
    by (simp add: chain_search_call_def retriever_invoke_def with_config_def
        configurable_fields_def as_retriever_def)
  have direct: "retriever_invoke (as_retriever (Some (PyDict kw))) q = Similarity_search q kw"
    for kw
    by (simp add: retriever_invoke_def as_retriever_def)
  have ids: "configured_fields hybrid_ipynb = [(''search_kwargs'', Some (PyStr ''search_kwargs''))]"
    by code_simp
  have config: "last (events hybrid_ipynb)
     = Invoke_pipeline
         (Some (PyDict [(''configurable'',
                  PyDict [(''search_kwargs'', PyDict [(''body_search'', PyStr ''new'')])])]))"
    by code_simp
  from pass none direct ids config show ?thesis by simp
qed

text \<open>
  C9. The two streamed sequences the notebook shows are monotone: in each, every string
  field of an element is a prefix of the same field of the next element. The last
  element of a streamed sequence is the result of invoking the parser on the complete
  model output: for the streamed jokes, it is the parsed joke that the notebook shows
  for the invocation, in each of the three cells that show it; and against the model of
  streaming above, for every parser and every model output in chunks whose complete
  text parses, the stream is not empty and its last element is what invoking the parser
  on the complete text returns, so that whichever parser and chunks yielded the JSON
  sequence shown, its last element is the result of that invocation.
\<close>

theorem C9_streams_monotone:
  "monotone_stream parser_output_cc2b999e
   \<and> monotone_stream (map Joke_dict parser_output_a23b7592)
   \<and> last parser_output_a23b7592 = parser_output_3ad71dfb
   \<and> last parser_output_a23b7592 = parser_output_34f7ff0c
   \<and> last parser_output_a23b7592 = parser_output_51f7fff5
   \<and> (chunks \<noteq> [] \<and> parse (concat chunks) = Some v \<longrightarrow>
        parser_stream parse chunks \<noteq> []
        \<and> parser_invoke parse (concat chunks) = Inr (last (parser_stream parse chunks)))
   \<and> (parser_stream json_parse json_chunks = parser_output_cc2b999e
        \<and> json_parse (concat json_chunks) = Some json_v \<longrightarrow>
        parser_invoke json_parse (concat json_chunks) = Inr (last parser_output_cc2b999e))"
proof -
  have recorded: "monotone_stream parser_output_cc2b999e
   \<and> monotone_stream (map Joke_dict parser_output_a23b7592)
   \<and> last parser_output_a23b7592 = parser_output_3ad71dfb
   \<and> last parser_output_a23b7592 = parser_output_34f7ff0c
   \<and> last parser_output_a23b7592 = parser_output_51f7fff5"
    by code_simp
  have general: "parser_stream p cs \<noteq> []
        \<and> parser_invoke p (concat cs) = Inr (last (parser_stream p cs))"
    if "cs \<noteq> []" and "p (concat cs) = Some w" for p :: "string \<Rightarrow> 'b option" and cs w
    using parser_stream_last [of cs p w] that by simp
  have json: "parser_invoke json_parse (concat json_chunks) = Inr (last parser_output_cc2b999e)"
    if s: "parser_stream json_parse json_chunks = parser_output_cc2b999e"
      and f: "json_parse (concat json_chunks) = Some json_v"
  proof -
    have "parser_output_cc2b999e \<noteq> []" by (simp add: parser_output_cc2b999e_def)
    with s have "parser_stream json_parse json_chunks \<noteq> []" by simp
    then have "json_chunks \<noteq> []" by (rule parser_stream_nonempty)
    with general [of json_chunks json_parse json_v] f s show ?thesis by simp
  qed
  from recorded general [of chunks parse v] json show ?thesis by blast
qed

theorem C9_streams_monotone_witness:
  "answer_chunks \<noteq> []
   \<and> parse_answer_object (concat answer_chunks)
       = Some [(''answer'', PyStr ''Antonie van Leeuwenhoek'')]
   \<and> parser_stream parse_answer_object answer_chunks = parser_output_cc2b999e
   \<and> parser_invoke parse_answer_object (concat answer_chunks)
       = Inr (last parser_output_cc2b999e)
   \<and> parser_invoke parse_answer_object (concat answer_chunks)
       = Inr (last (parser_stream parse_answer_object answer_chunks))
   \<and> last parser_output_cc2b999e = [(''answer'', PyStr ''Antonie van Leeuwenhoek'')]"
proof -
  have chunks: "answer_chunks \<noteq> []" by (simp add: answer_chunks_def)
  note run = answer_stream_recorded
  from C9_streams_monotone [of answer_chunks parse_answer_object _ parse_answer_object answer_chunks]
    chunks run
  have invoke: "parser_invoke parse_answer_object (concat answer_chunks)
       = Inr (last parser_output_cc2b999e)"
    and general: "parser_invoke parse_answer_object (concat answer_chunks)
       = Inr (last (parser_stream parse_answer_object answer_chunks))"
    by blast+
  from invoke run(2) have "last parser_output_cc2b999e
      = [(''answer'', PyStr ''Antonie van Leeuwenhoek'')]"
    by (simp add: parser_invoke_def)
  with chunks run invoke general show ?thesis by blast
qed

text \<open>
  C10. The schema of the structured-output example, the class \<^verbatim>\<open>Joke\<close>, declares
  exactly two fields, both annotated \<^verbatim>\<open>str\<close>: \<^verbatim>\<open>setup\<close> and \<^verbatim>\<open>punchline\<close>.
\<close>

theorem C10_joke_fields:
  "schema_fields ''Joke'' output_parser_structured_ipynb
     = [[(''setup'', Name ''str''), (''punchline'', Name ''str'')]]"
  by code_simp

end
